theory Spec2Isabelle
  imports Main "HOL-Library.Multiset"
begin

section \<open>Values received from the HTTP layer\<close>

text \<open>
  The handlers of \<^verbatim>\<open>email_server.py\<close> work on the value of \<^verbatim>\<open>request.json\<close>: an
  untyped JSON value. Nothing in the source checks the type of a field, so the fields
  stay JSON values all the way into \<^verbatim>\<open>EmailSender\<close>. JSON numbers with a fraction
  (Python floats) are left out of the model.
\<close>

datatype json =
    JNull
  | JBool bool
  | JInt int
  | JStr string
  | JList "json list"
  | JObj "(string \<times> json) list"

text \<open>Python truthiness, as used by \<^verbatim>\<open>all([...])\<close>.\<close>

fun truthy :: "json \<Rightarrow> bool" where
  "truthy JNull = False"
| "truthy (JBool b) = b"
| "truthy (JInt n) = (n \<noteq> 0)"
| "truthy (JStr s) = (s \<noteq> [])"
| "truthy (JList xs) = (xs \<noteq> [])"
| "truthy (JObj kv) = (kv \<noteq> [])"

text \<open>\<^verbatim>\<open>type(v).__name__\<close>, as it appears in the text of an AttributeError.\<close>

fun type_name :: "json \<Rightarrow> string" where
  "type_name JNull = ''NoneType''"
| "type_name (JBool b) = ''bool''"
| "type_name (JInt n) = ''int''"
| "type_name (JStr s) = ''str''"
| "type_name (JList xs) = ''list''"
| "type_name (JObj kv) = ''dict''"

text \<open>\<^verbatim>\<open>d.get(key, default)\<close> on a dict given by its items.\<close>

definition py_get :: "(string \<times> json) list \<Rightarrow> string \<Rightarrow> json \<Rightarrow> json" where
  "py_get kv k d = (case map_of kv k of None \<Rightarrow> d | Some v \<Rightarrow> v)"

section \<open>Text\<close>

text \<open>
  A Python \<^verbatim>\<open>str\<close> is given by the bytes of its UTF-8 encoding. JSON text can deliver a
  lone surrogate (\<^verbatim>\<open>"\ud800"\<close> is parsed to a \<^verbatim>\<open>str\<close> of one code point), which UTF-8 proper
  does not encode: a surrogate code point U+D800..U+DFFF is given by the three bytes that
  the same scheme yields for it, \<open>0xED\<close>, then a byte in \<open>0xA0..0xBF\<close>, then a byte in
  \<open>0x80..0xBF\<close>. The byte \<open>0xED\<close> never occurs inside a code point.
\<close>

definition continuation :: "char \<Rightarrow> bool" where
  "continuation c = (0x80 \<le> (of_char c :: nat) \<and> (of_char c :: nat) \<le> 0xBF)"

text \<open>The code points of a text, each with its own bytes.\<close>

function code_points :: "string \<Rightarrow> string list" where
  "code_points [] = []"
| "code_points (c # cs) = (c # takeWhile continuation cs) # code_points (dropWhile continuation cs)"
  by pat_completeness auto
termination
  by (relation "measure length") (auto simp: length_dropWhile_le less_Suc_eq_le)

declare code_points.simps [simp del]

text \<open>
  The text starts with a surrogate; with one of U+DC80..U+DCFF (second byte \<open>0xB2\<close> or
  \<open>0xB3\<close>), which the error handler \<^verbatim>\<open>surrogateescape\<close> turns into a single byte.
\<close>

definition surrogate_byte :: "char \<Rightarrow> bool" where
  "surrogate_byte b = (0xA0 \<le> (of_char b :: nat) \<and> (of_char b :: nat) \<le> 0xBF)"

fun surrogate :: "string \<Rightarrow> bool" where
  "surrogate (a # b # cs) = (a = CHR 0xED \<and> surrogate_byte b)"
| "surrogate cs = False"

fun escaped :: "string \<Rightarrow> bool" where
  "escaped (a # b # cs) = (a = CHR 0xED \<and> (b = CHR 0xB2 \<or> b = CHR 0xB3))"
| "escaped cs = False"

text \<open>
  The first surrogate that \<^verbatim>\<open>surrogateescape\<close> cannot turn into a byte: its index, counted
  in code points from \<open>n\<close>, and the text from there on.
\<close>

fun first_unencodable :: "string \<Rightarrow> nat \<Rightarrow> (nat \<times> string) option" where
  "first_unencodable [] n = None"
| "first_unencodable (c # cs) n =
     (if surrogate (c # cs) \<and> \<not> escaped (c # cs) then Some (n, c # cs)
      else first_unencodable cs (if continuation c then n else Suc n))"

text \<open>The number of surrogates in a row at the start of a text.\<close>

fun surrogate_run :: "string \<Rightarrow> nat" where
  "surrogate_run (a # b # c # cs) =
     (if surrogate (a # b # c # cs) then Suc (surrogate_run cs) else 0)"
| "surrogate_run cs = (if surrogate cs then 1 else 0)"

text \<open>\<^verbatim>\<open>str(n)\<close> for a natural number, and the lowercase hexadecimal digits.\<close>

function decimal :: "nat \<Rightarrow> string" where
  "decimal n =
     (if n < 10 then [char_of (48 + n)] else decimal (n div 10) @ [char_of (48 + n mod 10)])"
  by pat_completeness auto
termination
  by (relation "measure id") auto

declare decimal.simps [simp del]

definition hex_digit :: "nat \<Rightarrow> char" where
  "hex_digit d = ''0123456789abcdef'' ! (d mod 16)"

text \<open>
  How the text of the error shows the surrogate that a text starts with: \<^verbatim>\<open>\udxxx\<close>,
  from the two bytes after \<open>0xED\<close>. The last equation is for texts that are not the bytes
  of a \<^verbatim>\<open>str\<close>.
\<close>

fun escape :: "string \<Rightarrow> string" where
  "escape (a # b # c # cs) =
     (let low = ((of_char b :: nat) - 0x80) * 64 + ((of_char c :: nat) - 0x80)
      in [CHR 0x5C] @ ''ud'' @ [hex_digit (low div 256), hex_digit (low div 16), hex_digit low])"
| "escape cs = []"

text \<open>
  \<^verbatim>\<open>text.encode('utf-8', 'surrogateescape')\<close>, the encoding that \<^verbatim>\<open>MIMEText\<close> applies to
  its text: \<open>None\<close> when it succeeds, otherwise \<^verbatim>\<open>str(e)\<close> of the UnicodeEncodeError. The
  error names the first surrogate that cannot be escaped and the end of the row of
  surrogates it stands in.
\<close>

definition utf8_encode_error :: "string \<Rightarrow> string option" where
  "utf8_encode_error text =
     (case first_unencodable text 0 of
        None \<Rightarrow> None
      | Some (start, rest) \<Rightarrow>
          Some ([CHR 0x27] @ ''utf-8'' @ [CHR 0x27] @ '' codec can'' @ [CHR 0x27] @ ''t encode '' @
                (if surrogate_run rest = 1 then
                   ''character '' @ [CHR 0x27] @ escape rest @ [CHR 0x27] @ '' in position '' @
                   decimal start
                 else
                   ''characters in position '' @ decimal start @ ''-'' @
                   decimal (start + surrogate_run rest - 1)) @
                '': surrogates not allowed''))"

section \<open>Exceptions\<close>

text \<open>
  The exceptions that the body of the \<^verbatim>\<open>try\<close> in \<^verbatim>\<open>send_email\<close> can raise, by the
  \<^verbatim>\<open>except\<close> clause that catches them; the string is \<^verbatim>\<open>str(e)\<close>.
  \<open>SMTPException\<close> stands for every subclass of \<^verbatim>\<open>smtplib.SMTPException\<close> other than
  the two named before it, \<open>Exception\<close> for every other subclass of \<^verbatim>\<open>Exception\<close>
  (socket errors, timeouts, TLS errors, AttributeError, ...).
\<close>

datatype exn =
    SMTPAuthenticationError string
  | SMTPRecipientsRefused string
  | SMTPException string
  | Exception string

text \<open>Exceptions raised in a handler outside \<^verbatim>\<open>send_email\<close>, by kind.\<close>

datatype fault = AttributeError | ValueError | TypeError

section \<open>Message Builder\<close>

text \<open>
  \<^verbatim>\<open>s.replace(old, new)\<close>: the occurrences of \<open>old\<close> are replaced from left to right
  and do not overlap; with an empty \<open>old\<close>, \<open>new\<close> is put before every code point and
  at the end.
\<close>

function replace :: "string \<Rightarrow> string \<Rightarrow> string \<Rightarrow> string" where
  "replace old new s =
     (if old = [] then new @ concat (map (\<lambda>p. p @ new) (code_points s))
      else if s = [] then []
      else if take (length old) s = old then new @ replace old new (drop (length old) s)
      else hd s # replace old new (tl s))"
  by pat_completeness auto
termination
  by (relation "measure (\<lambda>(old, new, s). length s)") (auto simp: neq_Nil_conv)

declare replace.simps [simp del]

definition html_head :: string where
  "html_head =
     ''\<newline><!DOCTYPE html>\<newline><html>\<newline><head>\<newline>'' @
     ''    <meta charset='' @ [CHR 0x22] @ ''UTF-8'' @ [CHR 0x22] @ ''>\<newline>'' @
     ''    <style>\<newline>'' @
     ''        body {\<newline>'' @
     ''            font-family: Arial, sans-serif;\<newline>'' @
     ''            line-height: 1.6;\<newline>'' @
     ''            color: #333;\<newline>'' @
     ''            max-width: 600px;\<newline>'' @
     ''            margin: 0 auto;\<newline>'' @
     ''            padding: 20px;\<newline>'' @
     ''        }\<newline>'' @
     ''    </style>\<newline></head>\<newline><body>\<newline>    ''"

definition html_tail :: string where
  "html_tail = ''\<newline></body>\<newline></html>\<newline>''"

record mime_text =
  payload :: string
  subtype :: string
  charset :: string

text \<open>
  \<^verbatim>\<open>MIMEText(text, subtype, 'utf-8')\<close>, lines 71 and 72: the constructor encodes the text
  and raises UnicodeEncodeError when that fails. \<^verbatim>\<open>utf-8\<close> is the only charset that the
  source passes.
\<close>

definition MIMEText :: "string \<Rightarrow> string \<Rightarrow> string \<Rightarrow> exn + mime_text" where
  "MIMEText text sub cs =
     (case utf8_encode_error text of
        Some e \<Rightarrow> Inl (Exception e)
      | None \<Rightarrow> Inr \<lparr>payload = text, subtype = sub, charset = cs\<rparr>)"

record message =
  multipart :: string
  From :: json
  To :: json
  Subject :: json
  parts :: "mime_text list"

text \<open>
  Lines 40 to 74 of \<^verbatim>\<open>send_email\<close>. The headers take any value; \<^verbatim>\<open>body.replace\<close>
  raises AttributeError when the body is not a string; each of the two \<^verbatim>\<open>MIMEText\<close>
  raises when its text cannot be encoded.
\<close>

definition build_message :: "json \<Rightarrow> json \<Rightarrow> json \<Rightarrow> json \<Rightarrow> exn + message" where
  "build_message from_email to_email subject body =
     (case body of
        JStr b \<Rightarrow>
          (let html_body = replace ''\<newline>'' ''<br>\<newline>'' b;
               html_content = html_head @ html_body @ html_tail
           in case MIMEText b ''plain'' ''utf-8'' of
                Inl e \<Rightarrow> Inl e
              | Inr text_part \<Rightarrow>
                  (case MIMEText html_content ''html'' ''utf-8'' of
                     Inl e \<Rightarrow> Inl e
                   | Inr html_part \<Rightarrow>
                       Inr \<lparr>multipart = ''alternative'', From = from_email, To = to_email,
                            Subject = subject, parts = [text_part, html_part]\<rparr>))
      | _ \<Rightarrow>
          Inl (Exception ([CHR 0x27] @ type_name body @ [CHR 0x27] @
                          '' object has no attribute '' @ [CHR 0x27] @ ''replace'' @ [CHR 0x27])))"

section \<open>Transport Client\<close>

datatype verify_mode = CERT_NONE | CERT_OPTIONAL | CERT_REQUIRED

record ssl_context =
  check_hostname :: bool
  verify_mode :: verify_mode

text \<open>\<^verbatim>\<open>ssl.create_default_context()\<close>: the server's certificate and host name are checked.\<close>

definition create_default_context :: ssl_context where
  "create_default_context = \<lparr>check_hostname = True, verify_mode = CERT_REQUIRED\<rparr>"

record EmailSender =
  smtp_server :: json
  smtp_port :: int
  email :: json
  password :: json
  use_ssl :: bool

text \<open>
  The calls that \<^verbatim>\<open>send_email\<close> makes on \<^verbatim>\<open>smtplib\<close>, with their arguments:
  \<open>SMTP_SSL host port context timeout\<close> and \<open>SMTP host port timeout\<close> open the
  connection, the first with TLS from the first byte, the second in plaintext.
\<close>

datatype smtp_call =
    SMTP_SSL json int ssl_context nat
  | SMTP json int nat
  | starttls ssl_context
  | login json json
  | send_message message

text \<open>Lines 77 to 96: the calls of one session, in the order the source makes them.\<close>

definition session :: "EmailSender \<Rightarrow> message \<Rightarrow> smtp_call list" where
  "session self msg =
     (if smtp_port self = 465 then
        (let context = create_default_context;
             context = context\<lparr>check_hostname := False\<rparr>;
             context = context\<lparr>verify_mode := CERT_NONE\<rparr>
         in [SMTP_SSL (smtp_server self) (smtp_port self) context 30,
             login (email self) (password self),
             send_message msg])
      else
        [SMTP (smtp_server self) (smtp_port self) 30] @
        (if smtp_port self = 587 then
           (let context = create_default_context;
                context = context\<lparr>check_hostname := False\<rparr>;
                context = context\<lparr>verify_mode := CERT_NONE\<rparr>
            in [starttls context])
         else []) @
        [login (email self) (password self),
         send_message msg])"

text \<open>
  The mail server and the network are outside the program: \<open>raises c\<close> says whether
  the call \<open>c\<close> raises, and what. A session stops at the first call that raises.
  The result is the calls made, the raising one included, and the exception. What
  \<^verbatim>\<open>smtplib\<close> does on its own when the \<^verbatim>\<open>with\<close> block is left counts with the last
  call. The calls of \<^verbatim>\<open>logger\<close> are left out.
\<close>

fun run_session :: "(smtp_call \<Rightarrow> exn option) \<Rightarrow> smtp_call list \<Rightarrow> smtp_call list \<times> exn option" where
  "run_session raises [] = ([], None)"
| "run_session raises (c # cs) =
     (case raises c of
        Some e \<Rightarrow> ([c], Some e)
      | None \<Rightarrow> (case run_session raises cs of (made, r) \<Rightarrow> (c # made, r)))"

text \<open>The body of the \<^verbatim>\<open>try\<close>, lines 39 to 96: build the message, then run the session.\<close>

definition attempt_body ::
  "EmailSender \<Rightarrow> (smtp_call \<Rightarrow> exn option) \<Rightarrow> json \<Rightarrow> json \<Rightarrow> json \<Rightarrow> smtp_call list \<times> exn option" where
  "attempt_body self raises to_email subject body =
     (case build_message (email self) to_email subject body of
        Inl e \<Rightarrow> ([], Some e)
      | Inr msg \<Rightarrow> run_session raises (session self msg))"

section \<open>Retry Policy\<close>

record outcome =
  success :: bool
  recipient :: json
  error :: "string option"

text \<open>
  What one call of \<^verbatim>\<open>send_email\<close> does besides returning: each pass through the
  \<^verbatim>\<open>try\<close> (the SMTP calls it made and the exception it ended with, if any) and each
  \<^verbatim>\<open>time.sleep\<close>, in order.
\<close>

datatype step = Attempt "smtp_call list" "exn option" | Sleep nat

definition max_retries :: nat where
  "max_retries = 3"

definition retry_delay :: nat where
  "retry_delay = 1"

text \<open>
  The \<^verbatim>\<open>for attempt in range(max_retries)\<close> loop of \<^verbatim>\<open>send_email\<close>, over the attempts
  still to run; \<open>raises attempt\<close> is the behaviour of the server during that attempt.
  The empty list is the loop's exit, line 127.
\<close>

fun send_email_loop ::
  "EmailSender \<Rightarrow> (nat \<Rightarrow> smtp_call \<Rightarrow> exn option) \<Rightarrow> json \<Rightarrow> json \<Rightarrow> json \<Rightarrow> nat list
     \<Rightarrow> outcome \<times> step list" where
  "send_email_loop self raises to_email subject body [] =
     (\<lparr>success = False, recipient = to_email, error = Some ''Max retries exceeded''\<rparr>, [])"
| "send_email_loop self raises to_email subject body (attempt # rest) =
     (case attempt_body self (raises attempt) to_email subject body of
        (calls, None) \<Rightarrow>
          (\<lparr>success = True, recipient = to_email, error = None\<rparr>, [Attempt calls None])
      | (calls, Some (SMTPAuthenticationError e)) \<Rightarrow>
          (\<lparr>success = False, recipient = to_email,
            error = Some ''Authentication failed. Check email/password''\<rparr>,
           [Attempt calls (Some (SMTPAuthenticationError e))])
      | (calls, Some (SMTPRecipientsRefused e)) \<Rightarrow>
          (\<lparr>success = False, recipient = to_email, error = Some ''Recipient address rejected''\<rparr>,
           [Attempt calls (Some (SMTPRecipientsRefused e))])
      | (calls, Some (SMTPException e)) \<Rightarrow>
          (if attempt < max_retries - 1 then
             (case send_email_loop self raises to_email subject body rest of
                (r, steps) \<Rightarrow> (r, Attempt calls (Some (SMTPException e)) # Sleep retry_delay # steps))
           else
             (\<lparr>success = False, recipient = to_email, error = Some (''SMTP error: '' @ e)\<rparr>,
              [Attempt calls (Some (SMTPException e))]))
      | (calls, Some (Exception e)) \<Rightarrow>
          (if attempt < max_retries - 1 then
             (case send_email_loop self raises to_email subject body rest of
                (r, steps) \<Rightarrow> (r, Attempt calls (Some (Exception e)) # Sleep retry_delay # steps))
           else
             (\<lparr>success = False, recipient = to_email, error = Some e\<rparr>,
              [Attempt calls (Some (Exception e))])))"

definition send_email ::
  "EmailSender \<Rightarrow> (nat \<Rightarrow> smtp_call \<Rightarrow> exn option) \<Rightarrow> json \<Rightarrow> json \<Rightarrow> json \<Rightarrow> outcome \<times> step list" where
  "send_email self raises to_email subject body =
     send_email_loop self raises to_email subject body [0..<max_retries]"

section \<open>Bulk Dispatcher and Result Aggregator\<close>

text \<open>
  What the program does not decide:
  \<^item> \<open>int_of_str\<close>: Python's \<^verbatim>\<open>int\<close> on a string, \<open>None\<close> where it raises ValueError;
  \<^item> \<open>raises i k c\<close>: whether the SMTP call \<open>c\<close> raises, in attempt \<open>k\<close> of the \<open>i\<close>-th
    submitted task;
  \<^item> \<open>picks\<close>: the order in which the tasks of the pool complete (see \<open>as_completed\<close>).
\<close>

record environment =
  int_of_str :: "string \<Rightarrow> int option"
  raises :: "nat \<Rightarrow> nat \<Rightarrow> smtp_call \<Rightarrow> exn option"
  picks :: "nat list"

text \<open>\<^verbatim>\<open>int(v)\<close>.\<close>

definition py_int :: "(string \<Rightarrow> int option) \<Rightarrow> json \<Rightarrow> fault + int" where
  "py_int parse v =
     (case v of
        JInt n \<Rightarrow> Inr n
      | JBool b \<Rightarrow> Inr (if b then 1 else 0)
      | JStr s \<Rightarrow> (case parse s of None \<Rightarrow> Inl ValueError | Some n \<Rightarrow> Inr n)
      | _ \<Rightarrow> Inl TypeError)"

text \<open>\<^verbatim>\<open>EmailSender.__init__\<close>, lines 25 to 30.\<close>

definition EmailSender_init ::
  "(string \<Rightarrow> int option) \<Rightarrow> json \<Rightarrow> json \<Rightarrow> json \<Rightarrow> json \<Rightarrow> fault + EmailSender" where
  "EmailSender_init parse server port from_email pw =
     (case py_int parse port of
        Inl f \<Rightarrow> Inl f
      | Inr p \<Rightarrow>
          Inr \<lparr>smtp_server = server, smtp_port = p, email = from_email, password = pw,
               use_ssl = (p \<in> set [465, 587])\<rparr>)"

text \<open>
  \<^verbatim>\<open>ThreadPoolExecutor(max_workers=v)\<close>: the constructor compares \<open>v\<close> with 0 and
  raises ValueError when it is not positive; \<^verbatim>\<open>None\<close> selects the library's own
  default size. How the pool schedules its tasks is not modelled.
\<close>

datatype executor = Executor "int option"

definition ThreadPoolExecutor :: "json \<Rightarrow> fault + executor" where
  "ThreadPoolExecutor v =
     (case v of
        JNull \<Rightarrow> Inr (Executor None)
      | JInt n \<Rightarrow> (if n \<le> 0 then Inl ValueError else Inr (Executor (Some n)))
      | JBool b \<Rightarrow> (if b then Inr (Executor (Some 1)) else Inl ValueError)
      | _ \<Rightarrow> Inl TypeError)"

text \<open>
  \<^verbatim>\<open>as_completed(futures)\<close> yields every future once, in the order of completion.
  That order belongs to the scheduler: each element of \<open>picks\<close> chooses which of the
  futures still pending completes next (modulo their number; the first when \<open>picks\<close>
  has run out).
\<close>

function as_completed :: "'a list \<Rightarrow> nat list \<Rightarrow> 'a list" where
  "as_completed fs ps =
     (if fs = [] then []
      else (let k = (case ps of [] \<Rightarrow> 0 | p # _ \<Rightarrow> p mod length fs)
            in fs ! k # as_completed (take k fs @ drop (Suc k) fs) (tl ps)))"
  by pat_completeness auto
termination
proof (relation "measure (\<lambda>(fs, ps). length fs)")
  show "wf (measure (\<lambda>(fs, ps). length fs))"
    by simp
next
  fix fs :: "'a list" and ps :: "nat list" and k :: nat
  assume "fs \<noteq> []" and k: "k = (case ps of [] \<Rightarrow> 0 | p # _ \<Rightarrow> p mod length fs)"
  then have "k < length fs"
    by (cases ps) simp_all
  then show "((take k fs @ drop (Suc k) fs, tl ps), (fs, ps)) \<in> measure (\<lambda>(fs, ps). length fs)"
    by simp
qed

declare as_completed.simps [simp del]

record batch_report =
  report_success :: bool
  total :: int
  successful :: int
  failed :: int
  results :: "outcome list"

text \<open>The text of an error response: a literal of the source, or \<^verbatim>\<open>str(e)\<close>.\<close>

datatype error_text = Text string | StrOf fault

datatype response_body = Report batch_report | Failure bool error_text

text \<open>
  \<^verbatim>\<open>send_bulk_emails\<close>, lines 159 to 213, on the value of \<^verbatim>\<open>request.json\<close>. The
  result is the response (body and HTTP status) and, for every task submitted to the
  pool, in submission order, the steps of its \<^verbatim>\<open>send_email\<close>.
\<close>

definition send_bulk_emails :: "environment \<Rightarrow> json \<Rightarrow> (response_body \<times> nat) \<times> step list list" where
  "send_bulk_emails env data =
     (case data of
        JObj kv \<Rightarrow>
          (let from_email = py_get kv ''from'' JNull;
               pw = py_get kv ''password'' JNull;
               recipients = py_get kv ''recipients'' (JList []);
               subject = py_get kv ''subject'' JNull;
               body = py_get kv ''body'' JNull;
               server = py_get kv ''smtp_server'' (JStr ''smtp.hostinger.com'');
               port = py_get kv ''smtp_port'' (JStr ''465'');
               max_workers = py_get kv ''max_workers'' (JInt 20)
           in if \<not> list_all truthy [from_email, pw, recipients, subject, body] then
                ((Failure False (Text ''Missing required fields''), 400), [])
              else
                (case recipients of
                   JList rs \<Rightarrow>
                     (if length rs = 0 then
                        ((Failure False (Text ''Recipients must be a non-empty list''), 400), [])
                      else
                        (case EmailSender_init (int_of_str env) server port from_email pw of
                           Inl f \<Rightarrow> ((Failure False (StrOf f), 500), [])
                         | Inr sender \<Rightarrow>
                             (case ThreadPoolExecutor max_workers of
                                Inl f \<Rightarrow> ((Failure False (StrOf f), 500), [])
                              | Inr pool \<Rightarrow>
                                  (let futures = map (\<lambda>(i, r). send_email sender (raises env i) r subject body)
                                                     (enumerate 0 rs);
                                       results = as_completed (map fst futures) (picks env);
                                       total = int (length results);
                                       successful = (\<Sum>r\<leftarrow>filter success results. 1);
                                       failed = total - successful
                                   in ((Report \<lparr>report_success = True, total = total,
                                                successful = successful, failed = failed,
                                                results = results\<rparr>, 200),
                                       map snd futures)))))
                 | _ \<Rightarrow> ((Failure False (Text ''Recipients must be a non-empty list''), 400), [])))
      | _ \<Rightarrow> ((Failure False (StrOf AttributeError), 500), []))"

section \<open>Error classes and example inputs\<close>

text \<open>
  The exceptions caught by the last two \<^verbatim>\<open>except\<close> clauses of \<^verbatim>\<open>send_email\<close>, the
  ones that lead to another attempt, and the error text each of them leaves in the
  outcome when it is raised in the last attempt (lines 116 and 125).
\<close>

fun retryable :: "exn \<Rightarrow> bool" where
  "retryable (SMTPException e) = True"
| "retryable (Exception e) = True"
| "retryable (SMTPAuthenticationError e) = False"
| "retryable (SMTPRecipientsRefused e) = False"

fun final_error :: "exn \<Rightarrow> string" where
  "final_error (SMTPException e) = ''SMTP error: '' @ e"
| "final_error (Exception e) = e"
| "final_error (SMTPAuthenticationError e) = ''Authentication failed. Check email/password''"
| "final_error (SMTPRecipientsRefused e) = ''Recipient address rejected''"

text \<open>Three senders, one for each transport, and a message.\<close>

definition ssl_sender :: EmailSender where
  "ssl_sender = \<lparr>smtp_server = JStr ''smtp.hostinger.com'', smtp_port = 465,
                  email = JStr ''me@example.com'', password = JStr ''secret'', use_ssl = True\<rparr>"

definition tls_sender :: EmailSender where
  "tls_sender = \<lparr>smtp_server = JStr ''smtp.hostinger.com'', smtp_port = 587,
                  email = JStr ''me@example.com'', password = JStr ''secret'', use_ssl = True\<rparr>"

definition plain_sender :: EmailSender where
  "plain_sender = \<lparr>smtp_server = JStr ''localhost'', smtp_port = 25,
                    email = JStr ''me@example.com'', password = JStr ''secret'', use_ssl = False\<rparr>"

definition hello_message :: message where
  "hello_message = \<lparr>multipart = ''alternative'', From = JStr ''me@example.com'',
                     To = JStr ''a@example.com'', Subject = JStr ''Hello'',
                     parts = [\<lparr>payload = ''Hi'', subtype = ''plain'', charset = ''utf-8''\<rparr>,
                              \<lparr>payload = html_head @ ''Hi'' @ html_tail, subtype = ''html'',
                               charset = ''utf-8''\<rparr>]\<rparr>"

text \<open>Servers: one that rejects the credentials, one that drops every connection, one
  that times out twice and then works.\<close>

definition login_rejected :: "nat \<Rightarrow> smtp_call \<Rightarrow> exn option" where
  "login_rejected k c =
     (case c of login u p \<Rightarrow> Some (SMTPAuthenticationError ''(535, authentication failed)'')
              | _ \<Rightarrow> None)"

definition always_disconnected :: "nat \<Rightarrow> smtp_call \<Rightarrow> exn option" where
  "always_disconnected k c = Some (SMTPException ''Connection unexpectedly closed'')"

definition times_out_twice :: "nat \<Rightarrow> smtp_call \<Rightarrow> exn option" where
  "times_out_twice k c = (if k < 2 then Some (Exception ''timed out'') else None)"

text \<open>A server that accepts every call, and the string that the JSON text
  \<^verbatim>\<open>"\ud800"\<close> is parsed to: one code point, a surrogate without its partner.\<close>

definition accepts_all :: "nat \<Rightarrow> smtp_call \<Rightarrow> exn option" where
  "accepts_all k c = None"


text \<open>A bulk request with a repeated recipient, and the same request without recipients
  and without a subject.\<close>

definition three_recipients :: "json list" where
  "three_recipients = [JStr ''a@example.com'', JStr ''b@example.com'', JStr ''a@example.com'']"

definition bulk_request :: "(string \<times> json) list" where
  "bulk_request =
     [(''from'', JStr ''me@example.com''), (''password'', JStr ''secret''),
      (''recipients'', JList three_recipients),
      (''subject'', JStr ''Hello''), (''body'', JStr ''Hi''), (''smtp_port'', JInt 587)]"

definition no_recipients_request :: "(string \<times> json) list" where
  "no_recipients_request =
     [(''from'', JStr ''me@example.com''), (''password'', JStr ''secret''),
      (''recipients'', JList []), (''subject'', JStr ''Hello''), (''body'', JStr ''Hi'')]"

definition no_subject_request :: "(string \<times> json) list" where
  "no_subject_request =
     [(''from'', JStr ''me@example.com''), (''password'', JStr ''secret''),
      (''recipients'', JList [JStr ''a@example.com'']), (''body'', JStr ''Hi'')]"

text \<open>\<^verbatim>\<open>int\<close> on the strings that occur as ports in the examples.\<close>

definition decimal_ports :: "string \<Rightarrow> int option" where
  "decimal_ports s =
     (if s = ''465'' then Some 465 else if s = ''587'' then Some 587
      else if s = ''25'' then Some 25 else None)"

text \<open>Environments: in the first, the connection of the second task is refused in every
  attempt and the third task completes first; in the second, every call of every task
  fails.\<close>

definition one_faulty_env :: environment where
  "one_faulty_env =
     \<lparr>int_of_str = decimal_ports,
      raises = (\<lambda>i k c. if i = 1 then Some (Exception ''Connection refused'') else None),
      picks = [2, 0]\<rparr>"

definition all_failing_env :: environment where
  "all_failing_env =
     \<lparr>int_of_str = decimal_ports,
      raises = (\<lambda>i k c. Some (SMTPException ''Service not available'')),
      picks = []\<rparr>"

section \<open>Properties of the retry loop and of the dispatcher\<close>

lemma range_max_retries: "[0..<max_retries] = [0, 1, 2]"
  by (simp add: max_retries_def upt_rec)

lemma send_email_unfold:
  "send_email self rs to_email subject body = send_email_loop self rs to_email subject body [0, 1, 2]"
  by (simp only: send_email_def range_max_retries)

lemma replace_newline:
  "replace ''\<newline>'' ''<br>\<newline>'' b =
     concat (map (\<lambda>c. if c = CHR ''\<newline>'' then ''<br>\<newline>'' else [c]) b)"
proof (induction b)
  case Nil
  show ?case by (subst replace.simps) simp
next
  case (Cons c cs)
  show ?case
    using Cons.IH by (subst replace.simps) simp
qed

text \<open>A text that can be encoded stays so inside the HTML document.\<close>

lemma first_unencodable_counter:
  "(first_unencodable s n = None) = (first_unencodable s m = None)"
  by (induction s arbitrary: n m) auto

lemma first_unencodable_Cons:
  "(first_unencodable (c # cs) n = None) =
     (\<not> (surrogate (c # cs) \<and> \<not> escaped (c # cs)) \<and> first_unencodable cs n = None)"
  using first_unencodable_counter [of cs "if continuation c then n else Suc n" n] by simp

lemma encodable_append:
  "CHR 0xED \<notin> set xs \<Longrightarrow>
   (first_unencodable (xs @ ys) n = None) = (first_unencodable ys n = None)"
proof (induction xs)
  case Nil
  show ?case by simp
next
  case (Cons x xs)
  then have "\<not> surrogate ((x # xs) @ ys)"
    by (cases "xs @ ys") auto
  then show ?case
    using Cons by (simp add: first_unencodable_Cons del: first_unencodable.simps)
qed

lemma encodable_tail: "first_unencodable html_tail n = None"
  using encodable_append [of html_tail "[]" n] by (simp add: html_tail_def)

lemma no_surrogate_newline: "\<not> surrogate_byte CHR ''\<newline>''" "\<not> surrogate_byte CHR ''<''"
  by (simp_all add: surrogate_byte_def)

lemma encodable_html_body:
  "first_unencodable b n = None \<Longrightarrow>
   first_unencodable
     (concat (map (\<lambda>c. if c = CHR ''\<newline>'' then ''<br>\<newline>'' else [c]) b) @ html_tail) n = None"
proof (induction b)
  case Nil
  show ?case by (simp add: encodable_tail)
next
  case (Cons c cs)
  let ?g = "\<lambda>c. if c = CHR ''\<newline>'' then ''<br>\<newline>'' else [c]"
  let ?rest = "concat (map ?g cs) @ html_tail"
  have rest: "first_unencodable ?rest n = None"
    using Cons by (simp add: first_unencodable_Cons del: first_unencodable.simps)
  show ?case
  proof (cases "c = CHR ''\<newline>''")
    case True
    then show ?thesis
      using rest encodable_append [of "''<br>\<newline>''" ?rest n] by simp
  next
    case False
    have "surrogate (c # ?rest) \<Longrightarrow> surrogate (c # cs)"
      by (cases cs) (auto simp: html_tail_def no_surrogate_newline split: if_splits)
    moreover have "escaped (c # cs) \<Longrightarrow> escaped (c # ?rest)"
      by (cases cs) (auto simp: html_tail_def split: if_splits)
    moreover have "\<not> (surrogate (c # cs) \<and> \<not> escaped (c # cs))"
      using Cons.prems by (simp add: first_unencodable_Cons del: first_unencodable.simps)
    ultimately have "\<not> (surrogate (c # ?rest) \<and> \<not> escaped (c # ?rest))"
      by blast
    then show ?thesis
      using rest False by (simp add: first_unencodable_Cons del: first_unencodable.simps)
  qed
qed

lemma utf8_encode_error_None: "(utf8_encode_error s = None) = (first_unencodable s 0 = None)"
  by (simp add: utf8_encode_error_def split: option.splits)

lemma html_content_encodable:
  assumes "utf8_encode_error b = None"
  shows "utf8_encode_error
           (html_head @ concat (map (\<lambda>c. if c = CHR ''\<newline>'' then ''<br>\<newline>'' else [c]) b) @
            html_tail) = None"
proof -
  have "CHR 0xED \<notin> set html_head"
    by (simp add: html_head_def)
  then show ?thesis
    using assms encodable_html_body [of b 0]
    by (simp add: utf8_encode_error_None encodable_append)
qed

lemma build_message_encodable:
  assumes "utf8_encode_error b = None"
  shows "build_message from_email to_email subject (JStr b) =
     Inr \<lparr>multipart = ''alternative'', From = from_email, To = to_email, Subject = subject,
          parts = [\<lparr>payload = b, subtype = ''plain'', charset = ''utf-8''\<rparr>,
                   \<lparr>payload = html_head @
                      concat (map (\<lambda>c. if c = CHR ''\<newline>'' then ''<br>\<newline>'' else [c]) b) @
                      html_tail,
                    subtype = ''html'', charset = ''utf-8''\<rparr>]\<rparr>"
  using assms html_content_encodable [OF assms]
  by (simp add: build_message_def MIMEText_def replace_newline)


lemma ascii_encodable: "CHR 0xED \<notin> set b \<Longrightarrow> utf8_encode_error b = None"
  using encodable_append [of b "[]" 0] by (simp add: utf8_encode_error_None)

lemma build_hi:
  "build_message from_email to_email subject (JStr ''Hi'') =
     Inr \<lparr>multipart = ''alternative'', From = from_email, To = to_email, Subject = subject,
          parts = [\<lparr>payload = ''Hi'', subtype = ''plain'', charset = ''utf-8''\<rparr>,
                   \<lparr>payload = html_head @ ''Hi'' @ html_tail, subtype = ''html'',
                    charset = ''utf-8''\<rparr>]\<rparr>"
  using build_message_encodable [of "''Hi''" from_email to_email subject] ascii_encodable [of "''Hi''"]
  by simp

text \<open>One pass through the loop body, by the way the \<^verbatim>\<open>try\<close> ends.\<close>

lemma loop_ok:
  "attempt_body self (rs k) to_email subject body = (calls, None) \<Longrightarrow>
   send_email_loop self rs to_email subject body (k # rest) =
     (\<lparr>success = True, recipient = to_email, error = None\<rparr>, [Attempt calls None])"
  by simp

lemma loop_auth:
  "attempt_body self (rs k) to_email subject body = (calls, Some (SMTPAuthenticationError d)) \<Longrightarrow>
   send_email_loop self rs to_email subject body (k # rest) =
     (\<lparr>success = False, recipient = to_email,
       error = Some ''Authentication failed. Check email/password''\<rparr>,
      [Attempt calls (Some (SMTPAuthenticationError d))])"
  by simp

lemma loop_retry:
  "attempt_body self (rs k) to_email subject body = (calls, Some e) \<Longrightarrow> retryable e \<Longrightarrow>
   k < max_retries - 1 \<Longrightarrow>
   send_email_loop self rs to_email subject body (k # rest) =
     (fst (send_email_loop self rs to_email subject body rest),
      Attempt calls (Some e) # Sleep retry_delay # snd (send_email_loop self rs to_email subject body rest))"
  by (cases e) (simp_all split: prod.splits)

lemma loop_last:
  "attempt_body self (rs k) to_email subject body = (calls, Some e) \<Longrightarrow> retryable e \<Longrightarrow>
   \<not> k < max_retries - 1 \<Longrightarrow>
   send_email_loop self rs to_email subject body (k # rest) =
     (\<lparr>success = False, recipient = to_email, error = Some (final_error e)\<rparr>,
      [Attempt calls (Some e)])"
  by (cases e) simp_all

text \<open>The calls that a session makes are a beginning of the calls planned.\<close>

lemma run_session_calls:
  "run_session rs cs = (made, r) \<Longrightarrow>
   take (length made) cs = made \<and> (cs \<noteq> [] \<longrightarrow> made \<noteq> []) \<and> (r = None \<longrightarrow> made = cs)"
  by (induction cs arbitrary: made r) (auto split: option.splits prod.splits)

lemma run_session_accepted: "(\<forall>c. rs c = None) \<Longrightarrow> run_session rs cs = (cs, None)"
  by (induction cs) simp_all

lemma loop_steps:
  assumes "attempt_body self (rs k) to_email subject body = (made, e)"
  shows "snd (send_email_loop self rs to_email subject body (k # ks)) = [Attempt made e] \<or>
         snd (send_email_loop self rs to_email subject body (k # ks)) =
           Attempt made e # Sleep retry_delay # snd (send_email_loop self rs to_email subject body ks)"
proof (cases e)
  case None
  then show ?thesis using assms by simp
next
  case (Some x)
  then show ?thesis
    using assms by (cases x) (simp_all split: prod.splits)
qed

lemma loop_attempts:
  "Attempt calls r \<in> set (snd (send_email_loop self rs to_email subject body ks)) \<Longrightarrow>
   \<exists>k. attempt_body self (rs k) to_email subject body = (calls, r)"
proof (induction ks)
  case Nil
  then show ?case by simp
next
  case (Cons k ks)
  obtain made e where a: "attempt_body self (rs k) to_email subject body = (made, e)"
    by (cases "attempt_body self (rs k) to_email subject body")
  from loop_steps [where rs = rs and k = k and ks = ks, OF a] Cons.prems
  have "Attempt calls r = Attempt made e \<or>
        Attempt calls r \<in> set (snd (send_email_loop self rs to_email subject body ks))"
    by auto
  then show ?case
    using a Cons.IH by auto
qed

lemma loop_first_step:
  "\<exists>calls r rest.
     snd (send_email_loop self rs to_email subject body (k # ks)) = Attempt calls r # rest"
proof -
  obtain made e where a: "attempt_body self (rs k) to_email subject body = (made, e)"
    by (cases "attempt_body self (rs k) to_email subject body")
  show ?thesis
    using loop_steps [where rs = rs and k = k and ks = ks, OF a] by auto
qed

lemma session_nonempty: "session self msg \<noteq> []"
  by (simp add: session_def)

text \<open>Three retryable failures in a row: the third one is returned.\<close>

lemma three_failures:
  assumes "attempt_body self (rs 0) to_email subject body = (c0, Some e0)" "retryable e0"
      and "attempt_body self (rs 1) to_email subject body = (c1, Some e1)" "retryable e1"
      and "attempt_body self (rs 2) to_email subject body = (c2, Some e2)" "retryable e2"
  shows "send_email self rs to_email subject body =
           (\<lparr>success = False, recipient = to_email, error = Some (final_error e2)\<rparr>,
            [Attempt c0 (Some e0), Sleep 1, Attempt c1 (Some e1), Sleep 1, Attempt c2 (Some e2)])"
proof -
  have third: "send_email_loop self rs to_email subject body [2] =
                 (\<lparr>success = False, recipient = to_email, error = Some (final_error e2)\<rparr>,
                  [Attempt c2 (Some e2)])"
    using loop_last [where rs = rs and k = 2 and rest = "[]", OF assms(5) assms(6)]
    by (simp add: max_retries_def)
  have second: "send_email_loop self rs to_email subject body [1, 2] =
                  (\<lparr>success = False, recipient = to_email, error = Some (final_error e2)\<rparr>,
                   [Attempt c1 (Some e1), Sleep 1, Attempt c2 (Some e2)])"
    using loop_retry [where rs = rs and k = 1 and rest = "[2]", OF assms(3) assms(4)] third
    by (simp add: max_retries_def retry_delay_def)
  have first: "send_email_loop self rs to_email subject body [0, 1, 2] =
                 (\<lparr>success = False, recipient = to_email, error = Some (final_error e2)\<rparr>,
                  [Attempt c0 (Some e0), Sleep 1, Attempt c1 (Some e1), Sleep 1, Attempt c2 (Some e2)])"
    using loop_retry [where rs = rs and k = 0 and rest = "[1, 2]", OF assms(1) assms(2)] second
    by (simp add: max_retries_def retry_delay_def)
  show ?thesis
    unfolding send_email_unfold by (rule first)
qed

lemma send_email_loop_recipient:
  "recipient (fst (send_email_loop self rs to_email subject body ks)) = to_email"
  by (induction ks) (auto split: prod.splits option.splits exn.splits)

lemma send_email_recipient: "recipient (fst (send_email self rs to_email subject body)) = to_email"
  by (simp add: send_email_def send_email_loop_recipient)

text \<open>\<^verbatim>\<open>as_completed\<close> yields every future exactly once.\<close>

lemma mset_as_completed: "mset (as_completed fs ps) = mset fs"
proof (induction fs ps rule: as_completed.induct)
  case (1 fs ps)
  show ?case
  proof (cases "fs = []")
    case True
    then show ?thesis by (simp add: as_completed.simps)
  next
    case False
    define k where "k = (case ps of [] \<Rightarrow> 0 | p # _ \<Rightarrow> p mod length fs)"
    have k: "k < length fs"
      using False by (cases ps) (simp_all add: k_def)
    have IH: "mset (as_completed (take k fs @ drop (Suc k) fs) (tl ps)) =
                mset (take k fs @ drop (Suc k) fs)"
      using "1.IH" [OF False k_def] .
    have "as_completed fs ps = fs ! k # as_completed (take k fs @ drop (Suc k) fs) (tl ps)"
      using False by (subst as_completed.simps) (simp add: k_def Let_def)
    then have "mset (as_completed fs ps) = mset (take k fs @ fs ! k # drop (Suc k) fs)"
      using IH by simp
    also have "\<dots> = mset fs"
      using id_take_nth_drop [OF k] by simp
    finally show ?thesis .
  qed
qed

lemma length_as_completed: "length (as_completed fs ps) = length fs"
  using mset_as_completed [of fs ps] by (metis size_mset)

lemma set_as_completed: "set (as_completed fs ps) = set fs"
  using mset_as_completed [of fs ps] by (metis set_mset_mset)

lemma count_ones: "(\<Sum>r\<leftarrow>xs. (1::int)) = int (length xs)"
  by (induction xs) simp_all

lemma futures_by_index:
  "map (\<lambda>(i, r). f i r) (enumerate 0 rs) = map (\<lambda>i. f i (rs ! i)) [0..<length rs]"
  by (rule nth_equalityI) (simp_all add: nth_enumerate_eq)

text \<open>Without \<^verbatim>\<open>max_workers\<close> in the request, the pool is created for 20 workers.\<close>

lemma max_workers_default:
  "map_of kv ''max_workers'' = None \<Longrightarrow>
   ThreadPoolExecutor (py_get kv ''max_workers'' (JInt 20)) = Inr (Executor (Some 20))"
  by (simp add: py_get_def ThreadPoolExecutor_def)

text \<open>What the handler returns once the request has passed its checks.\<close>

lemma send_bulk_emails_dispatch:
  assumes "truthy (py_get kv ''from'' JNull)" and "truthy (py_get kv ''password'' JNull)"
      and "truthy (py_get kv ''subject'' JNull)" and "truthy (py_get kv ''body'' JNull)"
      and "py_get kv ''recipients'' (JList []) = JList rs" and "rs \<noteq> []"
      and "EmailSender_init (int_of_str env) (py_get kv ''smtp_server'' (JStr ''smtp.hostinger.com''))
             (py_get kv ''smtp_port'' (JStr ''465'')) (py_get kv ''from'' JNull)
             (py_get kv ''password'' JNull) = Inr sender"
      and "py_get kv ''max_workers'' (JInt 20) = JInt w" and "0 < w"
  shows "send_bulk_emails env (JObj kv) =
           (let futures = map (\<lambda>(i, r). send_email sender (raises env i) r
                                  (py_get kv ''subject'' JNull) (py_get kv ''body'' JNull))
                              (enumerate 0 rs);
                results = as_completed (map fst futures) (picks env)
            in ((Report \<lparr>report_success = True, total = int (length results),
                         successful = int (length (filter success results)),
                         failed = int (length results) - int (length (filter success results)),
                         results = results\<rparr>, 200),
                map snd futures))"
  using assms by (simp add: send_bulk_emails_def ThreadPoolExecutor_def Let_def count_ones)

section \<open>The claims\<close>

subsection \<open>Retry Policy\<close>

text \<open>
  C2, as amended. When the \<^verbatim>\<open>try\<close> of \<^verbatim>\<open>send_email\<close> ends with a retryable exception in
  each of the attempts 0, 1 and 2, the call makes exactly three attempts, sleeps 1
  between them, and returns one failed outcome whose error is the exception of the third
  attempt: \<^verbatim>\<open>SMTP error: \<close> followed by its text for an SMTP exception, its text alone
  otherwise. The third attempt returns from inside the loop, so the text
  \<^verbatim>\<open>Max retries exceeded\<close> of line 127 is not what this path returns.
\<close>

theorem retries_exhausted_reports_last_error:
  assumes "attempt_body self (rs 0) to_email subject body = (c0, Some e0)" and "retryable e0"
      and "attempt_body self (rs 1) to_email subject body = (c1, Some e1)" and "retryable e1"
      and "attempt_body self (rs 2) to_email subject body = (c2, Some e2)" and "retryable e2"
  shows "send_email self rs to_email subject body =
           (\<lparr>success = False, recipient = to_email, error = Some (final_error e2)\<rparr>,
            [Attempt c0 (Some e0), Sleep 1, Attempt c1 (Some e1), Sleep 1, Attempt c2 (Some e2)])"
  using assms by (rule three_failures)

theorem retries_exhausted_reports_last_error_witness:
  "send_email ssl_sender always_disconnected (JStr ''a@example.com'') (JStr ''Hello'') (JStr ''Hi'') =
     (\<lparr>success = False, recipient = JStr ''a@example.com'',
       error = Some (final_error (SMTPException ''Connection unexpectedly closed''))\<rparr>,
      [Attempt [SMTP_SSL (JStr ''smtp.hostinger.com'') 465
                  \<lparr>check_hostname = False, verify_mode = CERT_NONE\<rparr> 30]
               (Some (SMTPException ''Connection unexpectedly closed'')),
       Sleep 1,
       Attempt [SMTP_SSL (JStr ''smtp.hostinger.com'') 465
                  \<lparr>check_hostname = False, verify_mode = CERT_NONE\<rparr> 30]
               (Some (SMTPException ''Connection unexpectedly closed'')),
       Sleep 1,
       Attempt [SMTP_SSL (JStr ''smtp.hostinger.com'') 465
                  \<lparr>check_hostname = False, verify_mode = CERT_NONE\<rparr> 30]
               (Some (SMTPException ''Connection unexpectedly closed''))])"
proof -
  have a: "attempt_body ssl_sender (always_disconnected k) (JStr ''a@example.com'') (JStr ''Hello'')
             (JStr ''Hi'') =
           ([SMTP_SSL (JStr ''smtp.hostinger.com'') 465
               \<lparr>check_hostname = False, verify_mode = CERT_NONE\<rparr> 30],
            Some (SMTPException ''Connection unexpectedly closed''))" for k
    by (simp add: attempt_body_def build_hi session_def ssl_sender_def
        always_disconnected_def create_default_context_def)
  have r: "retryable (SMTPException ''Connection unexpectedly closed'')"
    by simp
  show ?thesis
    by (rule retries_exhausted_reports_last_error [OF a r a r a r])
qed

text \<open>
  C2 as the specification states it fails: against a server that drops every connection,
  all three attempts end with a retryable exception and the outcome carries the text of
  that exception, not \<^verbatim>\<open>Max retries exceeded\<close>.
\<close>

theorem retries_exhausted_not_max_retries:
  "snd (attempt_body ssl_sender (always_disconnected 0) (JStr ''a@example.com'') (JStr ''Hello'')
          (JStr ''Hi'')) = Some (SMTPException ''Connection unexpectedly closed'') \<and>
   snd (attempt_body ssl_sender (always_disconnected 1) (JStr ''a@example.com'') (JStr ''Hello'')
          (JStr ''Hi'')) = Some (SMTPException ''Connection unexpectedly closed'') \<and>
   snd (attempt_body ssl_sender (always_disconnected 2) (JStr ''a@example.com'') (JStr ''Hello'')
          (JStr ''Hi'')) = Some (SMTPException ''Connection unexpectedly closed'') \<and>
   error (fst (send_email ssl_sender always_disconnected (JStr ''a@example.com'') (JStr ''Hello'')
                 (JStr ''Hi''))) = Some ''SMTP error: Connection unexpectedly closed'' \<and>
   error (fst (send_email ssl_sender always_disconnected (JStr ''a@example.com'') (JStr ''Hello'')
                 (JStr ''Hi''))) \<noteq> Some ''Max retries exceeded''"
proof -
  have a: "attempt_body ssl_sender (always_disconnected k) (JStr ''a@example.com'') (JStr ''Hello'')
             (JStr ''Hi'') =
           ([SMTP_SSL (JStr ''smtp.hostinger.com'') 465
               \<lparr>check_hostname = False, verify_mode = CERT_NONE\<rparr> 30],
            Some (SMTPException ''Connection unexpectedly closed''))" for k
    by (simp add: attempt_body_def build_hi session_def ssl_sender_def
        always_disconnected_def create_default_context_def)
  have r: "retryable (SMTPException ''Connection unexpectedly closed'')"
    by simp
  have "error (fst (send_email ssl_sender always_disconnected (JStr ''a@example.com'')
                      (JStr ''Hello'') (JStr ''Hi''))) =
          Some ''SMTP error: Connection unexpectedly closed''"
    using three_failures [OF a r a r a r] by simp
  then show ?thesis
    using a by simp
qed

text \<open>
  C4. When the \<^verbatim>\<open>try\<close> of the first attempt ends with SMTPAuthenticationError, whatever
  its detail, \<^verbatim>\<open>send_email\<close> makes that one attempt only, does not sleep, and returns a
  failed outcome with the fixed text \<^verbatim>\<open>Authentication failed. Check email/password\<close>.
\<close>

theorem authentication_failure_not_retried:
  assumes "attempt_body self (rs 0) to_email subject body =
             (calls, Some (SMTPAuthenticationError detail))"
  shows "send_email self rs to_email subject body =
           (\<lparr>success = False, recipient = to_email,
             error = Some ''Authentication failed. Check email/password''\<rparr>,
            [Attempt calls (Some (SMTPAuthenticationError detail))])"
  unfolding send_email_unfold using assms by (rule loop_auth)

theorem authentication_failure_not_retried_witness:
  "send_email ssl_sender login_rejected (JStr ''a@example.com'') (JStr ''Hello'') (JStr ''Hi'') =
     (\<lparr>success = False, recipient = JStr ''a@example.com'',
       error = Some ''Authentication failed. Check email/password''\<rparr>,
      [Attempt [SMTP_SSL (JStr ''smtp.hostinger.com'') 465
                  \<lparr>check_hostname = False, verify_mode = CERT_NONE\<rparr> 30,
                login (JStr ''me@example.com'') (JStr ''secret'')]
               (Some (SMTPAuthenticationError ''(535, authentication failed)''))])"
proof -
  have "attempt_body ssl_sender (login_rejected 0) (JStr ''a@example.com'') (JStr ''Hello'')
          (JStr ''Hi'') =
        ([SMTP_SSL (JStr ''smtp.hostinger.com'') 465
            \<lparr>check_hostname = False, verify_mode = CERT_NONE\<rparr> 30,
          login (JStr ''me@example.com'') (JStr ''secret'')],
         Some (SMTPAuthenticationError ''(535, authentication failed)''))"
    by (simp add: attempt_body_def build_hi session_def ssl_sender_def
        login_rejected_def create_default_context_def)
  then show ?thesis
    by (rule authentication_failure_not_retried)
qed

text \<open>
  C5. When the \<^verbatim>\<open>try\<close> ends with a retryable exception in the attempts 0 and 1 and
  without exception in attempt 2, \<^verbatim>\<open>send_email\<close> makes exactly three attempts, sleeps the
  same delay of 1 after each of the two failures, and returns one successful outcome.
\<close>

theorem third_attempt_succeeds:
  assumes "attempt_body self (rs 0) to_email subject body = (c0, Some e0)" and "retryable e0"
      and "attempt_body self (rs 1) to_email subject body = (c1, Some e1)" and "retryable e1"
      and "attempt_body self (rs 2) to_email subject body = (c2, None)"
  shows "send_email self rs to_email subject body =
           (\<lparr>success = True, recipient = to_email, error = None\<rparr>,
            [Attempt c0 (Some e0), Sleep 1, Attempt c1 (Some e1), Sleep 1, Attempt c2 None])"
proof -
  have third: "send_email_loop self rs to_email subject body [2] =
                 (\<lparr>success = True, recipient = to_email, error = None\<rparr>, [Attempt c2 None])"
    using assms(5) by (rule loop_ok)
  have second: "send_email_loop self rs to_email subject body [1, 2] =
                  (\<lparr>success = True, recipient = to_email, error = None\<rparr>,
                   [Attempt c1 (Some e1), Sleep 1, Attempt c2 None])"
    using loop_retry [where rs = rs and k = 1 and rest = "[2]", OF assms(3) assms(4)] third
    by (simp add: max_retries_def retry_delay_def)
  have first: "send_email_loop self rs to_email subject body [0, 1, 2] =
                 (\<lparr>success = True, recipient = to_email, error = None\<rparr>,
                  [Attempt c0 (Some e0), Sleep 1, Attempt c1 (Some e1), Sleep 1, Attempt c2 None])"
    using loop_retry [where rs = rs and k = 0 and rest = "[1, 2]", OF assms(1) assms(2)] second
    by (simp add: max_retries_def retry_delay_def)
  show ?thesis
    unfolding send_email_unfold by (rule first)
qed

theorem third_attempt_succeeds_witness:
  "send_email plain_sender times_out_twice (JStr ''a@example.com'') (JStr ''Hello'') (JStr ''Hi'') =
     (\<lparr>success = True, recipient = JStr ''a@example.com'', error = None\<rparr>,
      [Attempt [SMTP (JStr ''localhost'') 25 30] (Some (Exception ''timed out'')),
       Sleep 1,
       Attempt [SMTP (JStr ''localhost'') 25 30] (Some (Exception ''timed out'')),
       Sleep 1,
       Attempt [SMTP (JStr ''localhost'') 25 30, login (JStr ''me@example.com'') (JStr ''secret''),
                send_message hello_message] None])"
proof -
  have a0: "attempt_body plain_sender (times_out_twice 0) (JStr ''a@example.com'') (JStr ''Hello'')
              (JStr ''Hi'') = ([SMTP (JStr ''localhost'') 25 30], Some (Exception ''timed out''))"
    by (simp add: attempt_body_def build_hi session_def plain_sender_def
        times_out_twice_def)
  have a1: "attempt_body plain_sender (times_out_twice 1) (JStr ''a@example.com'') (JStr ''Hello'')
              (JStr ''Hi'') = ([SMTP (JStr ''localhost'') 25 30], Some (Exception ''timed out''))"
    by (simp add: attempt_body_def build_hi session_def plain_sender_def
        times_out_twice_def)
  have a2: "attempt_body plain_sender (times_out_twice 2) (JStr ''a@example.com'') (JStr ''Hello'')
              (JStr ''Hi'') =
            ([SMTP (JStr ''localhost'') 25 30, login (JStr ''me@example.com'') (JStr ''secret''),
              send_message hello_message], None)"
    by (simp add: attempt_body_def build_hi session_def plain_sender_def
        times_out_twice_def hello_message_def)
  have r: "retryable (Exception ''timed out'')"
    by simp
  show ?thesis
    by (rule third_attempt_succeeds [OF a0 r a1 r a2])
qed

subsection \<open>Message Builder\<close>




subsection \<open>Transport Client\<close>

text \<open>
  C7. Let the message of a send be built, and let \<open>plan\<close> be, by the port of the
  sender: for 465, \<^verbatim>\<open>SMTP_SSL\<close> (encrypted from the start), login, send; for 587,
  plaintext \<^verbatim>\<open>SMTP\<close>, then \<^verbatim>\<open>starttls\<close>, then login, send; for any other port, plaintext
  \<^verbatim>\<open>SMTP\<close>, login, send, without \<^verbatim>\<open>starttls\<close>. The TLS context of the two encrypted
  transports has the host name check off and certificate verification at
  \<^verbatim>\<open>CERT_NONE\<close>; every connection has timeout 30. Then \<^verbatim>\<open>send_email\<close> makes at least one
  attempt; in every attempt, whatever the server does, the SMTP calls made are a
  non-empty beginning of \<open>plan\<close>, in its order, and all of \<open>plan\<close> when the attempt ends
  without exception; and against a server that accepts every call of the first attempt,
  \<^verbatim>\<open>send_email\<close> makes exactly the calls of \<open>plan\<close> and succeeds.
\<close>

theorem transport_selected_by_port:
  assumes "build_message (email self) to_email subject body = Inr msg"
      and "plan =
             (if smtp_port self = 465 then
                [SMTP_SSL (smtp_server self) 465 \<lparr>check_hostname = False, verify_mode = CERT_NONE\<rparr> 30,
                 login (email self) (password self), send_message msg]
              else if smtp_port self = 587 then
                [SMTP (smtp_server self) 587 30,
                 starttls \<lparr>check_hostname = False, verify_mode = CERT_NONE\<rparr>,
                 login (email self) (password self), send_message msg]
              else
                [SMTP (smtp_server self) (smtp_port self) 30,
                 login (email self) (password self), send_message msg])"
  shows "(\<exists>calls r rest.
            snd (send_email self rs to_email subject body) = Attempt calls r # rest) \<and>
         (\<forall>calls r. Attempt calls r \<in> set (snd (send_email self rs to_email subject body)) \<longrightarrow>
            calls \<noteq> [] \<and> take (length calls) plan = calls \<and> (r = None \<longrightarrow> calls = plan)) \<and>
         ((\<forall>c. rs 0 c = None) \<longrightarrow>
            send_email self rs to_email subject body =
              (\<lparr>success = True, recipient = to_email, error = None\<rparr>, [Attempt plan None]))"
proof -
  have plan: "session self msg = plan"
    using assms(2) by (simp add: session_def create_default_context_def)
  have body: "attempt_body self (rs k) to_email subject body = run_session (rs k) plan" for k
    using assms(1) plan by (simp add: attempt_body_def)
  have first: "\<exists>calls r rest.
                 snd (send_email self rs to_email subject body) = Attempt calls r # rest"
    unfolding send_email_unfold by (rule loop_first_step)
  have every: "calls \<noteq> [] \<and> take (length calls) plan = calls \<and> (r = None \<longrightarrow> calls = plan)"
    if step: "Attempt calls r \<in> set (snd (send_email self rs to_email subject body))" for calls r
  proof -
    obtain k where "attempt_body self (rs k) to_email subject body = (calls, r)"
      using step loop_attempts unfolding send_email_def by blast
    then have "run_session (rs k) plan = (calls, r)"
      using body by simp
    then show ?thesis
      using run_session_calls [of "rs k" plan calls r] session_nonempty [of self msg] plan
      by simp
  qed
  have accepted: "send_email self rs to_email subject body =
                    (\<lparr>success = True, recipient = to_email, error = None\<rparr>, [Attempt plan None])"
    if quiet: "\<forall>c. rs 0 c = None"
  proof -
    have "attempt_body self (rs 0) to_email subject body = (plan, None)"
      using body [of 0] run_session_accepted [OF quiet, of plan] by simp
    then show ?thesis
      unfolding send_email_unfold by (rule loop_ok)
  qed
  have every': "\<forall>calls r. Attempt calls r \<in> set (snd (send_email self rs to_email subject body)) \<longrightarrow>
                  calls \<noteq> [] \<and> take (length calls) plan = calls \<and> (r = None \<longrightarrow> calls = plan)"
    using every by blast
  have accepted': "(\<forall>c. rs 0 c = None) \<longrightarrow>
                   send_email self rs to_email subject body =
                     (\<lparr>success = True, recipient = to_email, error = None\<rparr>, [Attempt plan None])"
    using accepted by blast
  from first every' accepted' show ?thesis
    by (intro conjI)
qed

theorem transport_selected_by_port_witness:
  "send_email ssl_sender accepts_all (JStr ''a@example.com'') (JStr ''Hello'') (JStr ''Hi'') =
     (\<lparr>success = True, recipient = JStr ''a@example.com'', error = None\<rparr>,
      [Attempt [SMTP_SSL (JStr ''smtp.hostinger.com'') 465
                  \<lparr>check_hostname = False, verify_mode = CERT_NONE\<rparr> 30,
                login (JStr ''me@example.com'') (JStr ''secret''), send_message hello_message]
               None]) \<and>
   send_email tls_sender accepts_all (JStr ''a@example.com'') (JStr ''Hello'') (JStr ''Hi'') =
     (\<lparr>success = True, recipient = JStr ''a@example.com'', error = None\<rparr>,
      [Attempt [SMTP (JStr ''smtp.hostinger.com'') 587 30,
                starttls \<lparr>check_hostname = False, verify_mode = CERT_NONE\<rparr>,
                login (JStr ''me@example.com'') (JStr ''secret''), send_message hello_message]
               None]) \<and>
   send_email plain_sender accepts_all (JStr ''a@example.com'') (JStr ''Hello'') (JStr ''Hi'') =
     (\<lparr>success = True, recipient = JStr ''a@example.com'', error = None\<rparr>,
      [Attempt [SMTP (JStr ''localhost'') 25 30,
                login (JStr ''me@example.com'') (JStr ''secret''), send_message hello_message]
               None])"
proof -
  have ok: "\<forall>c. accepts_all 0 c = None"
    by (simp add: accepts_all_def)
  have m1: "build_message (email ssl_sender) (JStr ''a@example.com'') (JStr ''Hello'') (JStr ''Hi'') =
              Inr hello_message"
    by (simp add: ssl_sender_def build_hi hello_message_def)
  have m2: "build_message (email tls_sender) (JStr ''a@example.com'') (JStr ''Hello'') (JStr ''Hi'') =
              Inr hello_message"
    by (simp add: tls_sender_def build_hi hello_message_def)
  have m3: "build_message (email plain_sender) (JStr ''a@example.com'') (JStr ''Hello'') (JStr ''Hi'') =
              Inr hello_message"
    by (simp add: plain_sender_def build_hi hello_message_def)
  have p1: "[SMTP_SSL (JStr ''smtp.hostinger.com'') 465
               \<lparr>check_hostname = False, verify_mode = CERT_NONE\<rparr> 30,
             login (JStr ''me@example.com'') (JStr ''secret''), send_message hello_message] =
            (if smtp_port ssl_sender = 465 then
               [SMTP_SSL (smtp_server ssl_sender) 465
                  \<lparr>check_hostname = False, verify_mode = CERT_NONE\<rparr> 30,
                login (email ssl_sender) (password ssl_sender), send_message hello_message]
             else if smtp_port ssl_sender = 587 then
               [SMTP (smtp_server ssl_sender) 587 30,
                starttls \<lparr>check_hostname = False, verify_mode = CERT_NONE\<rparr>,
                login (email ssl_sender) (password ssl_sender), send_message hello_message]
             else
               [SMTP (smtp_server ssl_sender) (smtp_port ssl_sender) 30,
                login (email ssl_sender) (password ssl_sender), send_message hello_message])"
    by (simp add: ssl_sender_def)
  have p2: "[SMTP (JStr ''smtp.hostinger.com'') 587 30,
             starttls \<lparr>check_hostname = False, verify_mode = CERT_NONE\<rparr>,
             login (JStr ''me@example.com'') (JStr ''secret''), send_message hello_message] =
            (if smtp_port tls_sender = 465 then
               [SMTP_SSL (smtp_server tls_sender) 465
                  \<lparr>check_hostname = False, verify_mode = CERT_NONE\<rparr> 30,
                login (email tls_sender) (password tls_sender), send_message hello_message]
             else if smtp_port tls_sender = 587 then
               [SMTP (smtp_server tls_sender) 587 30,
                starttls \<lparr>check_hostname = False, verify_mode = CERT_NONE\<rparr>,
                login (email tls_sender) (password tls_sender), send_message hello_message]
             else
               [SMTP (smtp_server tls_sender) (smtp_port tls_sender) 30,
                login (email tls_sender) (password tls_sender), send_message hello_message])"
    by (simp add: tls_sender_def)
  have p3: "[SMTP (JStr ''localhost'') 25 30,
             login (JStr ''me@example.com'') (JStr ''secret''), send_message hello_message] =
            (if smtp_port plain_sender = 465 then
               [SMTP_SSL (smtp_server plain_sender) 465
                  \<lparr>check_hostname = False, verify_mode = CERT_NONE\<rparr> 30,
                login (email plain_sender) (password plain_sender), send_message hello_message]
             else if smtp_port plain_sender = 587 then
               [SMTP (smtp_server plain_sender) 587 30,
                starttls \<lparr>check_hostname = False, verify_mode = CERT_NONE\<rparr>,
                login (email plain_sender) (password plain_sender), send_message hello_message]
             else
               [SMTP (smtp_server plain_sender) (smtp_port plain_sender) 30,
                login (email plain_sender) (password plain_sender), send_message hello_message])"
    by (simp add: plain_sender_def)
  note t1 = transport_selected_by_port [where rs = accepts_all, OF m1 p1]
  note t2 = transport_selected_by_port [where rs = accepts_all, OF m2 p2]
  note t3 = transport_selected_by_port [where rs = accepts_all, OF m3 p3]
  from t1 ok t2 t3 show ?thesis
    by blast
qed

subsection \<open>Bulk Dispatcher and Result Aggregator\<close>

text \<open>Facts about the example request, shared by the examples below.\<close>

lemma bulk_request_fields:
  "py_get bulk_request ''from'' JNull = JStr ''me@example.com''"
  "py_get bulk_request ''password'' JNull = JStr ''secret''"
  "py_get bulk_request ''subject'' JNull = JStr ''Hello''"
  "py_get bulk_request ''body'' JNull = JStr ''Hi''"
  "py_get bulk_request ''recipients'' (JList []) = JList three_recipients"
  "py_get bulk_request ''smtp_server'' (JStr ''smtp.hostinger.com'') = JStr ''smtp.hostinger.com''"
  "py_get bulk_request ''smtp_port'' (JStr ''465'') = JInt 587"
  "py_get bulk_request ''max_workers'' (JInt 20) = JInt 20"
  by (simp_all add: bulk_request_def py_get_def)

lemma bulk_request_truthy:
  "truthy (py_get bulk_request ''from'' JNull)"
  "truthy (py_get bulk_request ''password'' JNull)"
  "truthy (py_get bulk_request ''subject'' JNull)"
  "truthy (py_get bulk_request ''body'' JNull)"
  by (simp_all add: bulk_request_fields)

lemma three_recipients_nonempty: "three_recipients \<noteq> []"
  by (simp add: three_recipients_def)

lemma bulk_request_init:
  "EmailSender_init (int_of_str env) (py_get bulk_request ''smtp_server'' (JStr ''smtp.hostinger.com''))
     (py_get bulk_request ''smtp_port'' (JStr ''465'')) (py_get bulk_request ''from'' JNull)
     (py_get bulk_request ''password'' JNull) = Inr tls_sender"
  by (simp add: bulk_request_fields EmailSender_init_def py_int_def tls_sender_def)

text \<open>
  C1. A bulk request in which the five required fields are non-empty, the recipients are
  a non-empty list, the port converts to an integer and the worker limit is a positive
  integer (or absent, hence 20) is answered with status 200 and a report that holds one
  outcome for every element of the recipient list, repeated recipients included: the
  recipients of the outcomes are a permutation of the list. In the report,
  \<open>total\<close> is the number of outcomes, \<open>successful\<close> the number of successful ones,
  \<open>failed\<close> the number of the others, and \<open>total = successful + failed\<close>. One task
  has run for each recipient.
\<close>

theorem bulk_report_cardinality:
  assumes "truthy (py_get kv ''from'' JNull)" and "truthy (py_get kv ''password'' JNull)"
      and "truthy (py_get kv ''subject'' JNull)" and "truthy (py_get kv ''body'' JNull)"
      and "py_get kv ''recipients'' (JList []) = JList rs" and "rs \<noteq> []"
      and "EmailSender_init (int_of_str env) (py_get kv ''smtp_server'' (JStr ''smtp.hostinger.com''))
             (py_get kv ''smtp_port'' (JStr ''465'')) (py_get kv ''from'' JNull)
             (py_get kv ''password'' JNull) = Inr sender"
      and "py_get kv ''max_workers'' (JInt 20) = JInt w" and "0 < w"
  shows "\<exists>rep steps.
           send_bulk_emails env (JObj kv) = ((Report rep, 200), steps) \<and>
           length (results rep) = length rs \<and>
           mset (map recipient (results rep)) = mset rs \<and>
           total rep = int (length (results rep)) \<and>
           successful rep = int (length (filter success (results rep))) \<and>
           failed rep = int (length (filter (\<lambda>r. \<not> success r) (results rep))) \<and>
           total rep = successful rep + failed rep \<and>
           length steps = length rs"
proof -
  define futures where
    "futures = map (\<lambda>(i, r). send_email sender (raises env i) r
                       (py_get kv ''subject'' JNull) (py_get kv ''body'' JNull)) (enumerate 0 rs)"
  define res where "res = as_completed (map fst futures) (picks env)"
  define rep where
    "rep = \<lparr>report_success = True, total = int (length res),
            successful = int (length (filter success res)),
            failed = int (length res) - int (length (filter success res)), results = res\<rparr>"
  have run: "send_bulk_emails env (JObj kv) = ((Report rep, 200), map snd futures)"
    using send_bulk_emails_dispatch [OF assms]
    by (simp add: Let_def futures_def res_def rep_def)
  have len: "length res = length rs"
    by (simp add: res_def futures_def length_as_completed)
  have "map recipient (map fst futures) = rs"
    by (simp add: futures_def send_email_recipient case_prod_unfold comp_def)
  then have "image_mset recipient (mset (map fst futures)) = mset rs"
    by (metis mset_map)
  moreover have "mset res = mset (map fst futures)"
    by (simp add: res_def mset_as_completed)
  ultimately have perm: "mset (map recipient res) = mset rs"
    by (metis mset_map)
  have split: "length (filter success res) + length (filter (\<lambda>r. \<not> success r) res) = length res"
    by (rule sum_length_filter_compl)
  have "send_bulk_emails env (JObj kv) = ((Report rep, 200), map snd futures) \<and>
        length (results rep) = length rs \<and>
        mset (map recipient (results rep)) = mset rs \<and>
        total rep = int (length (results rep)) \<and>
        successful rep = int (length (filter success (results rep))) \<and>
        failed rep = int (length (filter (\<lambda>r. \<not> success r) (results rep))) \<and>
        total rep = successful rep + failed rep \<and>
        length (map snd futures) = length rs"
    using run len perm split by (simp add: rep_def futures_def)
  then show ?thesis by blast
qed

theorem bulk_report_cardinality_witness:
  "\<exists>rep steps.
     send_bulk_emails one_faulty_env (JObj bulk_request) = ((Report rep, 200), steps) \<and>
     length (results rep) = length three_recipients \<and>
     mset (map recipient (results rep)) = mset three_recipients \<and>
     total rep = int (length (results rep)) \<and>
     successful rep = int (length (filter success (results rep))) \<and>
     failed rep = int (length (filter (\<lambda>r. \<not> success r) (results rep))) \<and>
     total rep = successful rep + failed rep \<and>
     length steps = length three_recipients"
  by (rule bulk_report_cardinality [where w = 20 and sender = tls_sender,
        OF bulk_request_truthy bulk_request_fields(5) three_recipients_nonempty
          bulk_request_init bulk_request_fields(8)]) simp

text \<open>
  C3. In a bulk request that has passed the checks, let every attempt for the recipient
  at position \<open>j\<close> end with an unexpected exception (one that is neither an SMTP
  exception nor raised outside the \<^verbatim>\<open>try\<close>). The request is still answered with
  status 200 and a report; the report holds, for every position \<open>i\<close> of the list, the
  outcome of \<^verbatim>\<open>send_email\<close> for that recipient, which depends on the behaviour of the
  server towards task \<open>i\<close> only; and the outcome of recipient \<open>j\<close> is in the report as a
  failed outcome with the text of the last exception.
\<close>

theorem recipient_fault_contained:
  assumes "truthy (py_get kv ''from'' JNull)" and "truthy (py_get kv ''password'' JNull)"
      and "truthy (py_get kv ''subject'' JNull)" and "truthy (py_get kv ''body'' JNull)"
      and "py_get kv ''recipients'' (JList []) = JList rs" and "rs \<noteq> []"
      and "EmailSender_init (int_of_str env) (py_get kv ''smtp_server'' (JStr ''smtp.hostinger.com''))
             (py_get kv ''smtp_port'' (JStr ''465'')) (py_get kv ''from'' JNull)
             (py_get kv ''password'' JNull) = Inr sender"
      and "py_get kv ''max_workers'' (JInt 20) = JInt w" and "0 < w"
      and "j < length rs"
      and "attempt_body sender (raises env j 0) (rs ! j) (py_get kv ''subject'' JNull)
             (py_get kv ''body'' JNull) = (c0, Some (Exception m0))"
      and "attempt_body sender (raises env j 1) (rs ! j) (py_get kv ''subject'' JNull)
             (py_get kv ''body'' JNull) = (c1, Some (Exception m1))"
      and "attempt_body sender (raises env j 2) (rs ! j) (py_get kv ''subject'' JNull)
             (py_get kv ''body'' JNull) = (c2, Some (Exception m2))"
  shows "\<exists>rep steps.
           send_bulk_emails env (JObj kv) = ((Report rep, 200), steps) \<and>
           mset (results rep) =
             mset (map (\<lambda>i. fst (send_email sender (raises env i) (rs ! i)
                                    (py_get kv ''subject'' JNull) (py_get kv ''body'' JNull)))
                       [0..<length rs]) \<and>
           fst (send_email sender (raises env j) (rs ! j)
                  (py_get kv ''subject'' JNull) (py_get kv ''body'' JNull)) =
             \<lparr>success = False, recipient = rs ! j, error = Some m2\<rparr> \<and>
           \<lparr>success = False, recipient = rs ! j, error = Some m2\<rparr> \<in> set (results rep)"
proof -
  let ?run = "\<lambda>i r. send_email sender (raises env i) r
                      (py_get kv ''subject'' JNull) (py_get kv ''body'' JNull)"
  define res where
    "res = as_completed (map fst (map (\<lambda>(i, r). ?run i r) (enumerate 0 rs))) (picks env)"
  define rep where
    "rep = \<lparr>report_success = True, total = int (length res),
            successful = int (length (filter success res)),
            failed = int (length res) - int (length (filter success res)), results = res\<rparr>"
  have run: "send_bulk_emails env (JObj kv) =
               ((Report rep, 200), map snd (map (\<lambda>(i, r). ?run i r) (enumerate 0 rs)))"
    using send_bulk_emails_dispatch [OF assms(1-9)]
    by (simp add: Let_def res_def rep_def)
  have by_index: "map fst (map (\<lambda>(i, r). ?run i r) (enumerate 0 rs)) =
                    map (\<lambda>i. fst (?run i (rs ! i))) [0..<length rs]"
    using futures_by_index [of "\<lambda>i r. fst (?run i r)" rs]
    by (simp add: case_prod_unfold comp_def)
  have all: "mset res = mset (map (\<lambda>i. fst (?run i (rs ! i))) [0..<length rs])"
    unfolding res_def mset_as_completed by_index ..
  have mine: "fst (?run j (rs ! j)) = \<lparr>success = False, recipient = rs ! j, error = Some m2\<rparr>"
    using three_failures [where rs = "raises env j", OF assms(11) _ assms(12) _ assms(13)]
    by simp
  have "set res = set (map (\<lambda>i. fst (?run i (rs ! i))) [0..<length rs])"
    unfolding res_def set_as_completed by_index ..
  moreover have "fst (?run j (rs ! j)) \<in> set (map (\<lambda>i. fst (?run i (rs ! i))) [0..<length rs])"
    using assms(10) by simp
  ultimately have "fst (?run j (rs ! j)) \<in> set res"
    by (rule ssubst)
  then have "send_bulk_emails env (JObj kv) =
               ((Report rep, 200), map snd (map (\<lambda>(i, r). ?run i r) (enumerate 0 rs))) \<and>
             mset (results rep) = mset (map (\<lambda>i. fst (?run i (rs ! i))) [0..<length rs]) \<and>
             fst (?run j (rs ! j)) = \<lparr>success = False, recipient = rs ! j, error = Some m2\<rparr> \<and>
             \<lparr>success = False, recipient = rs ! j, error = Some m2\<rparr> \<in> set (results rep)"
    using run all mine by (simp add: rep_def)
  then show ?thesis by blast
qed

theorem recipient_fault_contained_witness:
  "\<exists>rep steps.
     send_bulk_emails one_faulty_env (JObj bulk_request) = ((Report rep, 200), steps) \<and>
     mset (results rep) =
       mset (map (\<lambda>i. fst (send_email tls_sender (raises one_faulty_env i) (three_recipients ! i)
                              (py_get bulk_request ''subject'' JNull)
                              (py_get bulk_request ''body'' JNull)))
                 [0..<length three_recipients]) \<and>
     fst (send_email tls_sender (raises one_faulty_env 1) (three_recipients ! 1)
            (py_get bulk_request ''subject'' JNull) (py_get bulk_request ''body'' JNull)) =
       \<lparr>success = False, recipient = three_recipients ! 1, error = Some ''Connection refused''\<rparr> \<and>
     \<lparr>success = False, recipient = three_recipients ! 1, error = Some ''Connection refused''\<rparr>
       \<in> set (results rep)"
proof -
  have a: "attempt_body tls_sender (raises one_faulty_env 1 k) (three_recipients ! 1)
             (py_get bulk_request ''subject'' JNull) (py_get bulk_request ''body'' JNull) =
           ([SMTP (JStr ''smtp.hostinger.com'') 587 30], Some (Exception ''Connection refused''))"
    for k
    by (simp add: bulk_request_fields three_recipients_def attempt_body_def build_hi
        session_def tls_sender_def one_faulty_env_def)
  have w: "(0::int) < 20" and j: "1 < length three_recipients"
    by (simp_all add: three_recipients_def)
  show ?thesis
    by (rule recipient_fault_contained [where w = 20 and sender = tls_sender,
          OF bulk_request_truthy bulk_request_fields(5) three_recipients_nonempty
            bulk_request_init bulk_request_fields(8) w j a a a])
qed

text \<open>
  C8. A bulk request (a JSON object) in which one of the five required fields is absent
  or empty, the empty recipient list included, is answered with status 400 and no
  report, and no task has run: no SMTP call is made.
\<close>

theorem malformed_bulk_request_rejected:
  assumes "k \<in> set [''from'', ''password'', ''recipients'', ''subject'', ''body'']"
      and "map_of kv k = None \<or> (\<exists>v. map_of kv k = Some v \<and> \<not> truthy v)"
  shows "send_bulk_emails env (JObj kv) =
           ((Failure False (Text ''Missing required fields''), 400), [])"
proof -
  have "\<not> truthy (py_get kv k JNull)" and "\<not> truthy (py_get kv k (JList []))"
    using assms(2) by (auto simp: py_get_def)
  then have "\<not> list_all truthy [py_get kv ''from'' JNull, py_get kv ''password'' JNull,
                                  py_get kv ''recipients'' (JList []), py_get kv ''subject'' JNull,
                                  py_get kv ''body'' JNull]"
    using assms(1) by auto
  then show ?thesis
    by (simp add: send_bulk_emails_def Let_def)
qed

theorem malformed_bulk_request_rejected_witness:
  "send_bulk_emails one_faulty_env (JObj no_recipients_request) =
     ((Failure False (Text ''Missing required fields''), 400), []) \<and>
   send_bulk_emails one_faulty_env (JObj no_subject_request) =
     ((Failure False (Text ''Missing required fields''), 400), [])"
proof
  have "map_of no_recipients_request ''recipients'' = Some (JList [])"
    by (simp add: no_recipients_request_def)
  then show "send_bulk_emails one_faulty_env (JObj no_recipients_request) =
               ((Failure False (Text ''Missing required fields''), 400), [])"
    using malformed_bulk_request_rejected [of "''recipients''" no_recipients_request one_faulty_env]
    by simp
next
  have "map_of no_subject_request ''subject'' = None"
    by (simp add: no_subject_request_def)
  then show "send_bulk_emails one_faulty_env (JObj no_subject_request) =
               ((Failure False (Text ''Missing required fields''), 400), [])"
    using malformed_bulk_request_rejected [of "''subject''" no_subject_request one_faulty_env]
    by simp
qed

text \<open>
  C10. Whenever \<^verbatim>\<open>send_bulk_emails\<close> answers with a report, the status is 200 and the
  \<^verbatim>\<open>success\<close> field of the report is \<^verbatim>\<open>True\<close>, whatever the outcomes in it: the field is
  the literal of line 204. Against a server on which every call fails, the three
  outcomes are failures and the field is still \<^verbatim>\<open>True\<close>.
\<close>

theorem batch_success_flag_constant:
  assumes "fst (send_bulk_emails env data) = (Report rep, status)"
  shows "report_success rep \<and> status = 200"
  using assms
  by (auto simp: send_bulk_emails_def Let_def split: json.splits if_splits sum.splits)

lemma as_completed_in_order: "as_completed [a, b, c] [] = [a, b, c]"
  by (simp add: as_completed.simps)

lemma all_failing_report:
  "fst (send_bulk_emails all_failing_env (JObj bulk_request)) =
     (Report \<lparr>report_success = True, total = 3, successful = 0, failed = 3,
              results =
                [\<lparr>success = False, recipient = JStr ''a@example.com'',
                  error = Some ''SMTP error: Service not available''\<rparr>,
                 \<lparr>success = False, recipient = JStr ''b@example.com'',
                  error = Some ''SMTP error: Service not available''\<rparr>,
                 \<lparr>success = False, recipient = JStr ''a@example.com'',
                  error = Some ''SMTP error: Service not available''\<rparr>]\<rparr>, 200)"
proof -
  have a: "attempt_body tls_sender (raises all_failing_env i k) r (py_get bulk_request ''subject'' JNull)
             (py_get bulk_request ''body'' JNull) =
           ([SMTP (JStr ''smtp.hostinger.com'') 587 30],
            Some (SMTPException ''Service not available''))" for i k r
    by (simp add: bulk_request_fields attempt_body_def build_hi session_def tls_sender_def
        all_failing_env_def)
  have t: "retryable (SMTPException ''Service not available'')"
    by simp
  have s: "fst (send_email tls_sender (raises all_failing_env i) r
                  (py_get bulk_request ''subject'' JNull) (py_get bulk_request ''body'' JNull)) =
           \<lparr>success = False, recipient = r, error = Some ''SMTP error: Service not available''\<rparr>"
    for i r
    using three_failures [where rs = "raises all_failing_env i", OF a t a t a t] by simp
  have p: "picks all_failing_env = []"
    by (simp add: all_failing_env_def)
  have w: "(0::int) < 20"
    by simp
  show ?thesis
    using send_bulk_emails_dispatch [where env = all_failing_env, OF bulk_request_truthy
        bulk_request_fields(5) three_recipients_nonempty bulk_request_init bulk_request_fields(8) w]
    by (simp add: Let_def three_recipients_def s p as_completed_in_order)
qed

theorem batch_success_flag_constant_witness:
  "report_success
     \<lparr>report_success = True, total = 3, successful = 0, failed = 3,
      results =
        [\<lparr>success = False, recipient = JStr ''a@example.com'',
          error = Some ''SMTP error: Service not available''\<rparr>,
         \<lparr>success = False, recipient = JStr ''b@example.com'',
          error = Some ''SMTP error: Service not available''\<rparr>,
         \<lparr>success = False, recipient = JStr ''a@example.com'',
          error = Some ''SMTP error: Service not available''\<rparr>]\<rparr> \<and>
   (200::nat) = 200"
  using all_failing_report by (rule batch_success_flag_constant)

end
